theory Spec2Isabelle
  imports Main "HOL-Library.Sublist"
begin

section \<open>JavaScript values used by the client\<close>

text \<open>
  The client is one React file, \<^verbatim>\<open>luvvtapp-react/src/App.jsx\<close>. Its strings are modelled
  as \<^typ>\<open>string\<close>, one \<^typ>\<open>char\<close> for each code unit (so the code units are those
  below 256); \<^verbatim>\<open>length\<close> and \<^verbatim>\<open>slice\<close> count the elements of the list, as
  JavaScript counts code units. A property that may be missing or \<^verbatim>\<open>null\<close> is a value
  of \<open>'a js\<close>: the difference matters when an object is serialised, because
  \<^verbatim>\<open>JSON.stringify\<close> drops a property whose value is \<^verbatim>\<open>undefined\<close> and writes
  \<^verbatim>\<open>null\<close> for one that is \<^verbatim>\<open>null\<close>.
\<close>

datatype 'a js = Undefined | Null | Val 'a

text \<open>Truthiness of an object-valued property: every object is truthy.\<close>

fun truthy :: "'a js \<Rightarrow> bool" where
  "truthy (Val x) = True"
| "truthy Undefined = False"
| "truthy Null = False"

text \<open>\<^verbatim>\<open>x || d\<close> for a string-valued property: the empty string is falsy too.\<close>

fun str_or :: "string js \<Rightarrow> string \<Rightarrow> string" where
  "str_or (Val t) d = (if t = [] then d else t)"
| "str_or Undefined d = d"
| "str_or Null d = d"

text \<open>\<^verbatim>\<open>x || undefined\<close> for a form field, which is always a string.\<close>

definition or_undefined :: "string \<Rightarrow> string js" where
  "or_undefined t = (if t = [] then Undefined else Val t)"

text \<open>
  \<^verbatim>\<open>String.prototype.trim\<close>: the white space among the characters of \<^typ>\<open>char\<close> is
  TAB, LF, VT, FF, CR, SPACE and NBSP.
\<close>

definition js_space :: "char \<Rightarrow> bool" where
  "js_space c = (of_char c \<in> {9, 10, 11, 12, 13, 32, 160 :: nat})"

definition trim :: "string \<Rightarrow> string" where
  "trim t = rev (dropWhile js_space (rev (dropWhile js_space t)))"

text \<open>\<^verbatim>\<open>t.slice(0, n)\<close>.\<close>

definition slice0 :: "nat \<Rightarrow> string \<Rightarrow> string" where
  "slice0 n t = take n t"

text \<open>\<^verbatim>\<open>t.split(c)\<close> for a one-character separator.\<close>

fun split :: "char \<Rightarrow> string \<Rightarrow> string list" where
  "split c [] = [[]]"
| "split c (x # xs) =
     (if x = c then [] # split c xs
      else (case split c xs of [] \<Rightarrow> [[x]] | w # ws \<Rightarrow> (x # w) # ws))"

text \<open>\<^verbatim>\<open>t.split(',').map(s => s.trim())\<close>, with and without \<^verbatim>\<open>.filter(Boolean)\<close>.\<close>

definition split_trim :: "string \<Rightarrow> string list" where
  "split_trim t = map trim (split (CHR '','') t)"

definition split_trim_nonempty :: "string \<Rightarrow> string list" where
  "split_trim_nonempty t = filter (\<lambda>w. w \<noteq> []) (split_trim t)"

text \<open>Decimal digits of a number, as a template literal prints \<^verbatim>\<open>Date.now()\<close>.\<close>

fun decimal :: "nat \<Rightarrow> string" where
  "decimal n =
     (if n < 10 then [''0123456789'' ! n]
      else decimal (n div 10) @ [''0123456789'' ! (n mod 10)])"

declare decimal.simps [simp del]

subsection \<open>JSON text\<close>

datatype json = JNull | JString string | JArray "json list" | JObject "(string \<times> json) list"

text \<open>The serialisation of a property value: \<^verbatim>\<open>undefined\<close> has none.\<close>

fun enc :: "('a \<Rightarrow> json) \<Rightarrow> 'a js \<Rightarrow> json option" where
  "enc f Undefined = None"
| "enc f Null = Some JNull"
| "enc f (Val x) = Some (f x)"

text \<open>
  \<^verbatim>\<open>JSON.stringify\<close> of an object literal: the properties in the order they are written,
  without those whose value is \<^verbatim>\<open>undefined\<close>.
\<close>

fun props :: "(string \<times> json option) list \<Rightarrow> (string \<times> json) list" where
  "props [] = []"
| "props ((k, None) # kvs) = props kvs"
| "props ((k, Some v) # kvs) = (k, v) # props kvs"

definition stringify :: "(string \<times> json option) list \<Rightarrow> json" where
  "stringify kvs = JObject (props kvs)"

fun object_keys :: "json \<Rightarrow> string list" where
  "object_keys (JObject kvs) = map fst kvs"
| "object_keys _ = []"

fun property :: "json \<Rightarrow> string \<Rightarrow> json option" where
  "property (JObject kvs) k = map_of kvs k"
| "property _ k = None"

definition strings :: "string list \<Rightarrow> json" where
  "strings ws = JArray (map JString ws)"

section \<open>Data exchanged with the backend\<close>

text \<open>
  The objects the client reads from and writes to the backend. A field name carries a prefix
  where two objects of the source share a property name.
\<close>

record assessment =
  sa_personality_type :: "string js"
  sa_love_language :: "string js"
  sa_communication_style :: "string js"

record preferences =
  pf_birthday :: string
  pf_anniversary_dates :: "string list"
  pf_zodiac_sign :: "string js"
  pf_music_preferences :: "string js"
  pf_religious_beliefs :: "string js"
  pf_ideal_vacations :: "string js"
  pf_fashion_preferences :: "string js"
  pf_dietary_restrictions :: "string js"

record partner_profile =
  pp_name :: string
  pp_personality_type :: "string js"
  pp_love_language :: "string js"
  pp_interests :: "string list js"
  pp_preferences :: "preferences js"

record relationship =
  rel_relationship_type :: "string js"
  rel_partner_profile :: "partner_profile js"

record message =
  role :: string
  content :: string

record session =
  session_id :: string
  context_type :: "string js"
  ses_relationship_type :: "string js"
  ses_partner_profile :: "partner_profile js"
  updated_at :: string

record advice =
  advice_id :: "string js"
  topic :: "string js"
  adv_content :: "string js"
  created_at :: "string js"
  preview :: "string js"

record user_profile =
  up_name :: string
  up_email :: string
  up_self_assessment :: "assessment js"

text \<open>The bodies of the responses the client reads (section 6 of the specification).\<close>

record 'm history_response =
  hr_messages :: "'m list js"
  hr_partner_profile :: "partner_profile js"
  hr_relationship_type :: "string js"

record chat_response =
  cr_session_id :: string
  cr_response :: string

text \<open>
  What \<^verbatim>\<open>await fetch(...)\<close> gives: the promise rejects (a network failure), or it
  resolves to a response with its \<^verbatim>\<open>ok\<close> flag and the JSON body that
  \<^verbatim>\<open>res.json()\<close> returns. The body is read only when \<^verbatim>\<open>ok\<close> holds. Every body
  is an object of the shape that section 6 of the specification gives for its endpoint, with
  the properties that the client guards against (\<^verbatim>\<open>||\<close>, \<^verbatim>\<open>?.\<close>) possibly missing;
  a body that is not JSON is outside the model.
\<close>

datatype 'a fetch_result = Rejected | Response bool 'a

fun failed :: "'a fetch_result \<Rightarrow> bool" where
  "failed Rejected = True"
| "failed (Response ok b) = (\<not> ok)"

subsection \<open>Serialisation of the objects sent\<close>

definition assessment_json :: "assessment \<Rightarrow> json" where
  "assessment_json a = stringify
     [(''personality_type'', enc JString (sa_personality_type a)),
      (''love_language'', enc JString (sa_love_language a)),
      (''communication_style'', enc JString (sa_communication_style a))]"

definition preferences_json :: "preferences \<Rightarrow> json" where
  "preferences_json p = stringify
     [(''birthday'', Some (JString (pf_birthday p))),
      (''anniversary_dates'', Some (strings (pf_anniversary_dates p))),
      (''zodiac_sign'', enc JString (pf_zodiac_sign p)),
      (''music_preferences'', enc JString (pf_music_preferences p)),
      (''religious_beliefs'', enc JString (pf_religious_beliefs p)),
      (''ideal_vacations'', enc JString (pf_ideal_vacations p)),
      (''fashion_preferences'', enc JString (pf_fashion_preferences p)),
      (''dietary_restrictions'', enc JString (pf_dietary_restrictions p))]"

definition partner_profile_json :: "partner_profile \<Rightarrow> json" where
  "partner_profile_json p = stringify
     [(''name'', Some (JString (pp_name p))),
      (''personality_type'', enc JString (pp_personality_type p)),
      (''love_language'', enc JString (pp_love_language p)),
      (''interests'', enc strings (pp_interests p)),
      (''preferences'', enc preferences_json (pp_preferences p))]"

text \<open>A string or \<^verbatim>\<open>null\<close>, as the state holds the user and session identifiers.\<close>

fun nullable :: "string option \<Rightarrow> json" where
  "nullable None = JNull"
| "nullable (Some t) = JString t"

text \<open>What a template literal prints for such a value.\<close>

fun interpolate :: "string option \<Rightarrow> string" where
  "interpolate None = ''null''"
| "interpolate (Some t) = t"

fun interpolate_js :: "string js \<Rightarrow> string" where
  "interpolate_js Undefined = ''undefined''"
| "interpolate_js Null = ''null''"
| "interpolate_js (Val t) = t"

datatype http_method = GET | POST | DELETE

record request =
  rq_method :: http_method
  rq_url :: string
  rq_body :: "json option"

definition API_BASE_URL :: string where
  "API_BASE_URL = ''http://localhost:8000''"

section \<open>The state of the application\<close>

datatype view = chat | addPartner | addRelationship | settings

datatype storage_op = GetItem string | SetItem string string | RemoveItem string

fun op_key :: "storage_op \<Rightarrow> string" where
  "op_key (GetItem k) = k"
| "op_key (SetItem k v) = k"
| "op_key (RemoveItem k) = k"

text \<open>The \<^verbatim>\<open>useState\<close> variables of \<^verbatim>\<open>App\<close>, in the order of lines 7 to 24.\<close>

record app_state =
  currentView :: view
  userId :: "string option"
  userProfile :: "user_profile option"
  relationships :: "relationship list"
  selectedRelationship :: "relationship option"
  messages :: "message list"
  adviceOpen :: bool
  adviceTopic :: string
  adviceSituation :: string
  advicePartner :: "relationship option"
  adviceLoading :: bool
  adviceList :: "advice list"
  selectedAdvice :: "advice option"
  sessions :: "session list"
  inputMessage :: string
  sessionId :: "string option"
  loading :: bool
  sidebarOpen :: bool

text \<open>
  The state together with what the handlers reach outside it: the browser's local storage,
  the operations performed on it, and the lines written by \<^verbatim>\<open>console.error\<close>.
\<close>

record world = app_state +
  localStorage :: "string \<Rightarrow> string option"
  storage_ops :: "storage_op list"
  console :: "string list"

definition USER_KEY :: string where
  "USER_KEY = ''luvvtapp_user_id''"

text \<open>
  The first render: \<^verbatim>\<open>localStorage.getItem('luvvtapp_user_id') || null\<close> (line 8) for the
  user, the literal initial values for the rest.
\<close>

definition stored_user :: "(string \<Rightarrow> string option) \<Rightarrow> string option" where
  "stored_user st = (case st USER_KEY of None \<Rightarrow> None | Some v \<Rightarrow> if v = [] then None else Some v)"

definition init :: "(string \<Rightarrow> string option) \<Rightarrow> world" where
  "init st = \<lparr> currentView = chat, userId = stored_user st, userProfile = None,
     relationships = [], selectedRelationship = None, messages = [],
     adviceOpen = False, adviceTopic = ''Communication'', adviceSituation = [],
     advicePartner = None, adviceLoading = False, adviceList = [], selectedAdvice = None,
     sessions = [], inputMessage = [], sessionId = None, loading = False, sidebarOpen = True,
     localStorage = st, storage_ops = [GetItem USER_KEY], console = [] \<rparr>"

text \<open>
  A later render of \<^verbatim>\<open>App\<close>. The argument of \<^verbatim>\<open>useState\<close> at line 8 is evaluated at
  every render, so every render reads the key again; \<^verbatim>\<open>useState\<close> uses the value at the
  first render only, so nothing but the log of the operations changes.
\<close>

definition render :: "world \<Rightarrow> world" where
  "render w = w\<lparr> storage_ops := storage_ops w @ [GetItem USER_KEY] \<rparr>"

text \<open>The gate of lines 232 to 234: the onboarding screen replaces the application.\<close>

fun falsy_id :: "string option \<Rightarrow> bool" where
  "falsy_id None = True"
| "falsy_id (Some t) = (t = [])"

definition shows_onboarding :: "world \<Rightarrow> bool" where
  "shows_onboarding w = (falsy_id (userId w) \<or> userProfile w = None)"

section \<open>The handlers of \<^verbatim>\<open>App\<close>\<close>

text \<open>
  A handler is modelled as one transition, from the state in which it is called to the state
  after its response has been handled: no other handler runs in between (the client
  coordinates no concurrent requests). The outcome of each request the handler makes is an
  argument. A call that the source does not await (\<^verbatim>\<open>loadUserProfile()\<close> in
  \<^verbatim>\<open>createUser\<close>, \<^verbatim>\<open>loadAdviceList()\<close> in \<^verbatim>\<open>submitAdvice\<close>) is applied after the
  caller's own updates.
\<close>

text \<open>Optional chaining \<^verbatim>\<open>x?.f\<close> on a state variable that is an object or \<^verbatim>\<open>null\<close>.\<close>

fun chain :: "'a option \<Rightarrow> ('a \<Rightarrow> 'b js) \<Rightarrow> 'b js" where
  "chain None f = Undefined"
| "chain (Some x) f = f x"

text \<open>\<^verbatim>\<open>xs || []\<close>: an array is truthy, also when empty.\<close>

fun list_or_empty :: "'a list js \<Rightarrow> 'a list" where
  "list_or_empty (Val xs) = xs"
| "list_or_empty Undefined = []"
| "list_or_empty Null = []"

subsection \<open>openSession (lines 45 to 64)\<close>

definition openSession_request :: "session \<Rightarrow> request" where
  "openSession_request s = \<lparr> rq_method = GET,
     rq_url = API_BASE_URL @ ''/api/sessions/'' @ session_id s @ ''/history'',
     rq_body = None \<rparr>"

definition openSession ::
  "world \<Rightarrow> session \<Rightarrow> ('z message_scheme) history_response fetch_result \<Rightarrow> world" where
  "openSession w s res =
     (case res of
        Rejected \<Rightarrow> w\<lparr> console := console w @ [''Error opening session:''] \<rparr>
      | Response ok data \<Rightarrow>
          if ok then
            w\<lparr> sessionId := Some (session_id s),
               selectedRelationship :=
                 (if truthy (hr_partner_profile data)
                  then Some \<lparr> rel_relationship_type =
                                 Val (str_or (hr_relationship_type data) ''general''),
                               rel_partner_profile = hr_partner_profile data \<rparr>
                  else None),
               messages := map (\<lambda>m. \<lparr> role = role m, content = content m \<rparr>)
                             (list_or_empty (hr_messages data)),
               currentView := chat,
               sidebarOpen := False \<rparr>
          else w)"

subsection \<open>The loaders (lines 66 to 114)\<close>

definition loadUserProfile_request :: "world \<Rightarrow> request" where
  "loadUserProfile_request w = \<lparr> rq_method = GET,
     rq_url = API_BASE_URL @ ''/api/users/'' @ interpolate (userId w), rq_body = None \<rparr>"

definition loadUserProfile :: "world \<Rightarrow> user_profile fetch_result \<Rightarrow> world" where
  "loadUserProfile w response =
     (case response of
        Rejected \<Rightarrow> w\<lparr> console := console w @ [''Error loading profile:''] \<rparr>
      | Response ok data \<Rightarrow> if ok then w\<lparr> userProfile := Some data \<rparr> else w)"

definition loadRelationships_request :: "world \<Rightarrow> request" where
  "loadRelationships_request w = \<lparr> rq_method = GET,
     rq_url = API_BASE_URL @ ''/api/relationships/'' @ interpolate (userId w), rq_body = None \<rparr>"

definition loadRelationships :: "world \<Rightarrow> relationship list js fetch_result \<Rightarrow> world" where
  "loadRelationships w response =
     (case response of
        Rejected \<Rightarrow> w\<lparr> console := console w @ [''Error loading relationships:''] \<rparr>
      | Response ok data \<Rightarrow> if ok then w\<lparr> relationships := list_or_empty data \<rparr> else w)"

definition loadAdviceList_request :: "world \<Rightarrow> request option" where
  "loadAdviceList_request w =
     (if falsy_id (userId w) then None
      else Some \<lparr> rq_method = GET,
        rq_url = API_BASE_URL @ ''/api/advice/'' @ interpolate (userId w), rq_body = None \<rparr>)"

definition loadAdviceList :: "world \<Rightarrow> advice list js fetch_result \<Rightarrow> world" where
  "loadAdviceList w res =
     (if falsy_id (userId w) then w
      else case res of
        Rejected \<Rightarrow> w\<lparr> console := console w @ [''Error loading advice list:''] \<rparr>
      | Response ok data \<Rightarrow> if ok then w\<lparr> adviceList := list_or_empty data \<rparr> else w)"

definition loadSessions_request :: "world \<Rightarrow> request option" where
  "loadSessions_request w =
     (if falsy_id (userId w) then None
      else Some \<lparr> rq_method = GET,
        rq_url = API_BASE_URL @ ''/api/sessions/'' @ interpolate (userId w), rq_body = None \<rparr>)"

definition loadSessions :: "world \<Rightarrow> session list js fetch_result \<Rightarrow> world" where
  "loadSessions w response =
     (if falsy_id (userId w) then w
      else case response of
        Rejected \<Rightarrow> w\<lparr> console := console w @ [''Error loading sessions:''] \<rparr>
      | Response ok data \<Rightarrow> if ok then w\<lparr> sessions := list_or_empty data \<rparr> else w)"

text \<open>The effect on \<^verbatim>\<open>userId\<close> (lines 27 to 35), which calls \<^verbatim>\<open>loadSessions\<close> twice.\<close>

definition useEffect_userId ::
  "world \<Rightarrow> user_profile fetch_result \<Rightarrow> relationship list js fetch_result \<Rightarrow>
   session list js fetch_result \<Rightarrow> advice list js fetch_result \<Rightarrow>
   session list js fetch_result \<Rightarrow> world" where
  "useEffect_userId w r1 r2 r3 r4 r5 =
     loadSessions
       (if \<not> falsy_id (userId w)
        then loadAdviceList (loadSessions (loadRelationships (loadUserProfile w r1) r2) r3) r4
        else w) r5"

subsection \<open>createUser (lines 116 to 138)\<close>

definition newUserId :: "nat \<Rightarrow> string" where
  "newUserId now = ''user_'' @ decimal now"

definition createUser_request :: "nat \<Rightarrow> string \<Rightarrow> string \<Rightarrow> assessment js \<Rightarrow> request" where
  "createUser_request now name email assessment = \<lparr> rq_method = POST,
     rq_url = API_BASE_URL @ ''/api/users'',
     rq_body = Some (stringify
       [(''user_id'', Some (JString (newUserId now))),
        (''name'', Some (JString name)),
        (''email'', Some (JString email)),
        (''self_assessment'', enc assessment_json assessment)]) \<rparr>"

text \<open>
  \<^verbatim>\<open>now\<close> is the value of \<^verbatim>\<open>Date.now()\<close>. The profile request that follows a
  successful creation is \<open>loadUserProfile_request w\<close>: it is built in the closure of the
  call, with the user of the state \<open>w\<close>.
\<close>

definition createUser ::
  "world \<Rightarrow> nat \<Rightarrow> string \<Rightarrow> string \<Rightarrow> assessment js \<Rightarrow> 'b fetch_result \<Rightarrow>
   user_profile fetch_result \<Rightarrow> world" where
  "createUser w now name email assessment response profile =
     (case response of
        Rejected \<Rightarrow> w\<lparr> console := console w @ [''Error creating user:''] \<rparr>
      | Response ok data \<Rightarrow>
          if ok then
            loadUserProfile
              (w\<lparr> userId := Some (newUserId now),
                  localStorage := (localStorage w)(USER_KEY \<mapsto> newUserId now),
                  storage_ops := storage_ops w @ [SetItem USER_KEY (newUserId now)] \<rparr>)
              profile
          else w)"

subsection \<open>sendMessage (lines 140 to 172)\<close>

text \<open>The object literal of lines 152 to 159, with the value of each property.\<close>

definition chat_object :: "world \<Rightarrow> (string \<times> json option) list" where
  "chat_object w =
     [(''user_id'', Some (nullable (userId w))),
      (''message'', Some (JString (inputMessage w))),
      (''relationship_type'',
         Some (JString (str_or (chain (selectedRelationship w) rel_relationship_type) ''general''))),
      (''partner_profile'',
         enc partner_profile_json (chain (selectedRelationship w) rel_partner_profile)),
      (''self_assessment'', enc assessment_json (chain (userProfile w) up_self_assessment)),
      (''session_id'', Some (nullable (sessionId w)))]"

definition chat_body :: "world \<Rightarrow> json" where
  "chat_body w = stringify (chat_object w)"

definition chat_request :: "world \<Rightarrow> request" where
  "chat_request w = \<lparr> rq_method = POST,
     rq_url = API_BASE_URL @ ''/api/chat'',
     rq_body = Some (chat_body w) \<rparr>"

text \<open>Lines 143 to 146, which run before the request is made.\<close>

definition sendMessage_before :: "world \<Rightarrow> world" where
  "sendMessage_before w =
     w\<lparr> messages := messages w @ [\<lparr> role = ''user'', content = inputMessage w \<rparr>],
        inputMessage := [],
        loading := True \<rparr>"

text \<open>Lines 162 to 171, which run when the request has settled.\<close>

definition sendMessage_after :: "world \<Rightarrow> chat_response fetch_result \<Rightarrow> world" where
  "sendMessage_after w response =
     (case response of
        Rejected \<Rightarrow> w\<lparr> console := console w @ [''Error sending message:''] \<rparr>
      | Response ok data \<Rightarrow>
          if ok then
            w\<lparr> sessionId := Some (cr_session_id data),
               messages := messages w @ [\<lparr> role = ''assistant'', content = cr_response data \<rparr>] \<rparr>
          else w)
     \<lparr> loading := False \<rparr>"

text \<open>
  The request sent is \<open>chat_request w\<close>: the body is built from the variables of the
  closure, so its message is the input as it was when the handler was called.
\<close>

definition sendMessage :: "world \<Rightarrow> chat_response fetch_result \<Rightarrow> world" where
  "sendMessage w response =
     (if trim (inputMessage w) = [] then w
      else sendMessage_after (sendMessage_before w) response)"

subsection \<open>submitAdvice (lines 174 to 203)\<close>

text \<open>\<^verbatim>\<open>payload\<close> (lines 178 to 184) as \<^verbatim>\<open>JSON.stringify\<close> writes it.\<close>

definition payload :: "world \<Rightarrow> json" where
  "payload w = stringify
     [(''user_id'', Some (nullable (userId w))),
      (''topic'', Some (JString (adviceTopic w))),
      (''situation'', Some (JString (slice0 1000 (adviceSituation w)))),
      (''partner_profile'',
         enc partner_profile_json (chain (advicePartner w) rel_partner_profile)),
      (''self_assessment'', enc assessment_json (chain (userProfile w) up_self_assessment))]"

definition advice_request :: "world \<Rightarrow> request" where
  "advice_request w = \<lparr> rq_method = POST,
     rq_url = API_BASE_URL @ ''/api/advice'',
     rq_body = Some (payload w) \<rparr>"

text \<open>
  \<^verbatim>\<open>setAdviceLoading(true)\<close> (line 176) is overwritten by the \<^verbatim>\<open>finally\<close> block on
  every path that passes the guard.
\<close>

definition submitAdvice ::
  "world \<Rightarrow> advice fetch_result \<Rightarrow> advice list js fetch_result \<Rightarrow> world" where
  "submitAdvice w res listing =
     (if adviceTopic w = [] \<or> trim (adviceSituation w) = [] then w
      else case res of
        Rejected \<Rightarrow>
          w\<lparr> console := console w @ [''Advice request failed:''], adviceLoading := False \<rparr>
      | Response ok data \<Rightarrow>
          if ok then
            loadAdviceList
              (w\<lparr> selectedAdvice :=
                    Some \<lparr> advice_id = advice_id data, topic = topic data,
                           adv_content = adv_content data, created_at = created_at data,
                           preview = Undefined \<rparr>,
                  adviceOpen := False,
                  adviceSituation := [],
                  advicePartner := None,
                  adviceLoading := False \<rparr>)
              listing
          else w\<lparr> adviceLoading := False \<rparr>)"

subsection \<open>openAdvice and deleteAdvice (lines 205 to 230)\<close>

fun falsy_str :: "string js \<Rightarrow> bool" where
  "falsy_str (Val t) = (t = [])"
| "falsy_str Undefined = True"
| "falsy_str Null = True"

definition openAdvice_request :: "advice \<Rightarrow> request option" where
  "openAdvice_request item =
     (if falsy_str (advice_id item) then None
      else Some \<lparr> rq_method = GET,
        rq_url = API_BASE_URL @ ''/api/advice/item/'' @ interpolate_js (advice_id item),
        rq_body = None \<rparr>)"

definition openAdvice :: "world \<Rightarrow> advice \<Rightarrow> advice fetch_result \<Rightarrow> world" where
  "openAdvice w item res =
     (if falsy_str (advice_id item) then w
      else case res of
        Rejected \<Rightarrow> w\<lparr> console := console w @ [''Failed to open advice:''] \<rparr>
      | Response ok full \<Rightarrow>
          if ok then w\<lparr> selectedAdvice := Some full, currentView := chat, sidebarOpen := False \<rparr>
          else w)"

definition deleteAdvice_request :: "string js \<Rightarrow> request" where
  "deleteAdvice_request aid = \<lparr> rq_method = DELETE,
     rq_url = API_BASE_URL @ ''/api/advice/'' @ interpolate_js aid, rq_body = None \<rparr>"

text \<open>
  The identifier is the \<^verbatim>\<open>advice_id\<close> property of a list entry; \<^verbatim>\<open>===\<close> and
  \<^verbatim>\<open>!==\<close> on such values are equality and inequality of \<open>string js\<close>.
\<close>

definition deleteAdvice :: "world \<Rightarrow> string js \<Rightarrow> 'b fetch_result \<Rightarrow> world" where
  "deleteAdvice w aid res =
     (case res of
        Rejected \<Rightarrow> w\<lparr> console := console w @ [''Failed to delete advice:''] \<rparr>
      | Response ok data \<Rightarrow>
          if ok then
            (let w' = w\<lparr> adviceList := filter (\<lambda>a. advice_id a \<noteq> aid) (adviceList w) \<rparr>
             in if chain (selectedAdvice w) advice_id = aid
                then w'\<lparr> selectedAdvice := None \<rparr> else w')
          else w)"

subsection \<open>The handlers written in the markup (lines 236 to 593)\<close>

definition toggleSidebar :: "world \<Rightarrow> world" where
  "toggleSidebar w = w\<lparr> sidebarOpen := \<not> sidebarOpen w \<rparr>"

definition setCurrentView :: "world \<Rightarrow> view \<Rightarrow> world" where
  "setCurrentView w v = w\<lparr> currentView := v \<rparr>"

text \<open>A click on a relationship of the sidebar (lines 287 to 294).\<close>

definition selectRelationship :: "world \<Rightarrow> relationship \<Rightarrow> world" where
  "selectRelationship w rel =
     w\<lparr> selectedRelationship := Some rel, sessionId := None, messages := [],
        currentView := chat, sidebarOpen := False \<rparr>"

text \<open>The quick actions (lines 386 to 388).\<close>

definition newChat :: "world \<Rightarrow> world" where
  "newChat w = w\<lparr> messages := [], sessionId := None, currentView := chat \<rparr>"

definition signOut :: "world \<Rightarrow> world" where
  "signOut w =
     w\<lparr> localStorage := (localStorage w)(USER_KEY := None),
        storage_ops := storage_ops w @ [RemoveItem USER_KEY],
        userId := None \<rparr>"

text \<open>The advice form (lines 435 to 483).\<close>

definition setAdviceOpen :: "world \<Rightarrow> bool \<Rightarrow> world" where
  "setAdviceOpen w b = w\<lparr> adviceOpen := b \<rparr>"

definition setAdviceTopic :: "world \<Rightarrow> string \<Rightarrow> world" where
  "setAdviceTopic w t = w\<lparr> adviceTopic := t \<rparr>"

definition partner_name :: "relationship \<Rightarrow> string" where
  "partner_name r = (case rel_partner_profile r of Val p \<Rightarrow> pp_name p | _ \<Rightarrow> [])"

definition changeAdvicePartner :: "world \<Rightarrow> string \<Rightarrow> world" where
  "changeAdvicePartner w v =
     w\<lparr> advicePartner := find (\<lambda>r. partner_name r = v) (relationships w) \<rparr>"

definition changeAdviceSituation :: "world \<Rightarrow> string \<Rightarrow> world" where
  "changeAdviceSituation w v = w\<lparr> adviceSituation := slice0 1000 v \<rparr>"

definition closeAdvice :: "world \<Rightarrow> world" where
  "closeAdvice w = w\<lparr> selectedAdvice := None \<rparr>"

text \<open>The chat input and the three suggested questions (lines 508 and 553).\<close>

definition setInputMessage :: "world \<Rightarrow> string \<Rightarrow> world" where
  "setInputMessage w v = w\<lparr> inputMessage := v \<rparr>"

text \<open>
  \<^verbatim>\<open>onSaved\<close> and \<^verbatim>\<open>onSuccess\<close> of the two child views (lines 572 to 584): the
  relationships are loaded again and the view changes.
\<close>

definition onSaved :: "world \<Rightarrow> relationship list js fetch_result \<Rightarrow> world" where
  "onSaved w r = setCurrentView (loadRelationships w r) settings"

definition onSuccess :: "world \<Rightarrow> relationship list js fetch_result \<Rightarrow> world" where
  "onSuccess w r = setCurrentView (loadRelationships w r) chat"

section \<open>The child components\<close>

subsection \<open>OnboardingScreen (lines 595 to 612)\<close>

record onboarding_form =
  ob_name :: string
  ob_email :: string
  ob_personalityType :: string
  ob_loveLanguage :: string
  ob_communicationStyle :: string

text \<open>\<^verbatim>\<open>Object.keys(assessment)\<close>: the properties that were assigned.\<close>

definition assessment_keys :: "assessment \<Rightarrow> string list" where
  "assessment_keys a =
     (if sa_personality_type a = Undefined then [] else [''personality_type'']) @
     (if sa_love_language a = Undefined then [] else [''love_language'']) @
     (if sa_communication_style a = Undefined then [] else [''communication_style''])"

text \<open>The arguments with which \<^verbatim>\<open>handleSubmit\<close> calls \<^verbatim>\<open>onComplete\<close>.\<close>

definition Onboarding_handleSubmit :: "onboarding_form \<Rightarrow> string \<times> string \<times> assessment js" where
  "Onboarding_handleSubmit formData =
     (let assessment = \<lparr> sa_personality_type = or_undefined (ob_personalityType formData),
                          sa_love_language = or_undefined (ob_loveLanguage formData),
                          sa_communication_style = or_undefined (ob_communicationStyle formData) \<rparr>
      in (ob_name formData, ob_email formData,
          if length (assessment_keys assessment) > 0 then Val assessment else Null))"

text \<open>\<^verbatim>\<open>onComplete\<close> is \<^verbatim>\<open>createUser\<close> (line 233).\<close>

definition onboard ::
  "world \<Rightarrow> nat \<Rightarrow> onboarding_form \<Rightarrow> 'b fetch_result \<Rightarrow> user_profile fetch_result \<Rightarrow> world" where
  "onboard w now formData response profile =
     (case Onboarding_handleSubmit formData of
        (name, email, assessment) \<Rightarrow> createUser w now name email assessment response profile)"

definition onboard_request :: "nat \<Rightarrow> onboarding_form \<Rightarrow> request" where
  "onboard_request now formData =
     (case Onboarding_handleSubmit formData of
        (name, email, assessment) \<Rightarrow> createUser_request now name email assessment)"

subsection \<open>AddRelationshipView (lines 716 to 748)\<close>

record relationship_form =
  rf_type :: string
  rf_name :: string
  rf_personalityType :: string
  rf_loveLanguage :: string
  rf_interests :: string

definition AddRelationship_request :: "string option \<Rightarrow> relationship_form \<Rightarrow> request" where
  "AddRelationship_request uid formData = \<lparr> rq_method = POST,
     rq_url = API_BASE_URL @ ''/api/relationships'',
     rq_body = Some (stringify
       [(''user_id'', Some (nullable uid)),
        (''relationship_type'', Some (JString (rf_type formData))),
        (''partner_profile'', Some (partner_profile_json
           \<lparr> pp_name = rf_name formData,
             pp_personality_type = or_undefined (rf_personalityType formData),
             pp_love_language = or_undefined (rf_loveLanguage formData),
             pp_interests = (if rf_interests formData \<noteq> []
                             then Val (split_trim (rf_interests formData)) else Undefined),
             pp_preferences = Undefined \<rparr>))]) \<rparr>"

definition AddRelationship_handleSubmit ::
  "world \<Rightarrow> 'b fetch_result \<Rightarrow> relationship list js fetch_result \<Rightarrow> world" where
  "AddRelationship_handleSubmit w response reload =
     (case response of
        Rejected \<Rightarrow> w\<lparr> console := console w @ [''Error creating relationship:''] \<rparr>
      | Response ok data \<Rightarrow> if ok then onSuccess w reload else w)"

subsection \<open>AddPartnerProfileWizard (lines 882 to 941)\<close>

record wizard_form =
  wf_name :: string
  wf_birthday :: string
  wf_relationship_status :: string
  wf_anniversary_dates :: string
  wf_love_language :: string
  wf_zodiac_sign :: string
  wf_music_preferences :: string
  wf_religious_beliefs :: string
  wf_ideal_vacations :: string
  wf_hobbies :: string
  wf_fashion_preferences :: string
  wf_dietary_restrictions :: string

record wizard =
  wz_step :: nat
  saving :: bool
  form :: wizard_form

definition total :: nat where
  "total = 3"

definition wizard_init :: wizard where
  "wizard_init = \<lparr> wz_step = 1, saving = False,
     form = \<lparr> wf_name = [], wf_birthday = [], wf_relationship_status = ''romantic'',
              wf_anniversary_dates = [], wf_love_language = [], wf_zodiac_sign = [],
              wf_music_preferences = [], wf_religious_beliefs = [], wf_ideal_vacations = [],
              wf_hobbies = [], wf_fashion_preferences = [], wf_dietary_restrictions = [] \<rparr> \<rparr>"

definition "next" :: "wizard \<Rightarrow> wizard" where
  "next z =
     (if wz_step z = 1 \<and> (trim (wf_name (form z)) = [] \<or> wf_birthday (form z) = []
                            \<or> wf_relationship_status (form z) = [])
      then z
      else z\<lparr> wz_step := min (wz_step z + 1) total \<rparr>)"

definition prev :: "wizard \<Rightarrow> wizard" where
  "prev z = z\<lparr> wz_step := max (wz_step z - 1) 1 \<rparr>"

definition Wizard_request :: "string option \<Rightarrow> wizard_form \<Rightarrow> request" where
  "Wizard_request uid f = \<lparr> rq_method = POST,
     rq_url = API_BASE_URL @ ''/api/relationships'',
     rq_body = Some (stringify
       [(''user_id'', Some (nullable uid)),
        (''relationship_type'', Some (JString (wf_relationship_status f))),
        (''partner_profile'', Some (partner_profile_json
           \<lparr> pp_name = wf_name f,
             pp_personality_type = Undefined,
             pp_love_language = or_undefined (wf_love_language f),
             pp_interests = (if wf_hobbies f \<noteq> []
                             then Val (split_trim_nonempty (wf_hobbies f)) else Undefined),
             pp_preferences = Val
               \<lparr> pf_birthday = wf_birthday f,
                 pf_anniversary_dates =
                   (if wf_anniversary_dates f \<noteq> []
                    then split_trim_nonempty (wf_anniversary_dates f) else []),
                 pf_zodiac_sign = or_undefined (wf_zodiac_sign f),
                 pf_music_preferences = or_undefined (wf_music_preferences f),
                 pf_religious_beliefs = or_undefined (wf_religious_beliefs f),
                 pf_ideal_vacations = or_undefined (wf_ideal_vacations f),
                 pf_fashion_preferences = or_undefined (wf_fashion_preferences f),
                 pf_dietary_restrictions = or_undefined (wf_dietary_restrictions f) \<rparr> \<rparr>))]) \<rparr>"

text \<open>
  \<^verbatim>\<open>submit\<close> has a \<^verbatim>\<open>try\<close> with a \<^verbatim>\<open>finally\<close> block and no \<^verbatim>\<open>catch\<close>: when the
  request is rejected, the promise that \<^verbatim>\<open>submit\<close> returns is rejected in its turn, after
  the \<^verbatim>\<open>finally\<close> block has run. The result says which of the two happened.
\<close>

datatype completion = Returned | Threw

definition submit ::
  "world \<Rightarrow> wizard \<Rightarrow> 'b fetch_result \<Rightarrow> relationship list js fetch_result \<Rightarrow>
   world \<times> wizard \<times> completion" where
  "submit w z res reload =
     (case res of
        Rejected \<Rightarrow> (w, z\<lparr> saving := False \<rparr>, Threw)
      | Response ok data \<Rightarrow>
          (if ok then onSaved w reload else w, z\<lparr> saving := False \<rparr>, Returned))"

section \<open>Runs of the application\<close>

text \<open>
  Everything that changes the state of \<^verbatim>\<open>App\<close>: one action for each handler, with the
  handler's arguments and the outcomes of its requests, and one for a render. A run applies
  actions to the state of the first render. \<^verbatim>\<open>App\<close> renders again after each change of
  its state, that is, after the synchronous part of a handler and after each response that
  sets a state variable: in a run of the application a \<open>Render\<close> follows each of these, one
  for each response of an action that stands for several. No action is restricted to the
  states in which the interface offers it, and a \<open>Render\<close> may occur anywhere, so the runs
  cover at least the states and the logs the application can reach.
\<close>

datatype action =
    OpenSession session "message history_response fetch_result"
  | UserIdEffect "user_profile fetch_result" "relationship list js fetch_result"
      "session list js fetch_result" "advice list js fetch_result" "session list js fetch_result"
  | Onboard nat onboarding_form "unit fetch_result" "user_profile fetch_result"
  | SendMessage "chat_response fetch_result"
  | SubmitAdvice "advice fetch_result" "advice list js fetch_result"
  | OpenAdvice advice "advice fetch_result"
  | DeleteAdvice "string js" "unit fetch_result"
  | ToggleSidebar
  | SetCurrentView view
  | SelectRelationship relationship
  | NewChat
  | SignOut
  | SetAdviceOpen bool
  | SetAdviceTopic string
  | ChangeAdvicePartner string
  | ChangeAdviceSituation string
  | CloseAdvice
  | SetInputMessage string
  | AddRelationshipSubmit "unit fetch_result" "relationship list js fetch_result"
  | WizardSubmit wizard "unit fetch_result" "relationship list js fetch_result"
  | Render

fun step :: "world \<Rightarrow> action \<Rightarrow> world" where
  "step w (OpenSession s r) = openSession w s r"
| "step w (UserIdEffect r1 r2 r3 r4 r5) = useEffect_userId w r1 r2 r3 r4 r5"
| "step w (Onboard now formData r p) = onboard w now formData r p"
| "step w (SendMessage r) = sendMessage w r"
| "step w (SubmitAdvice r l) = submitAdvice w r l"
| "step w (OpenAdvice item r) = openAdvice w item r"
| "step w (DeleteAdvice aid r) = deleteAdvice w aid r"
| "step w ToggleSidebar = toggleSidebar w"
| "step w (SetCurrentView v) = setCurrentView w v"
| "step w (SelectRelationship rel) = selectRelationship w rel"
| "step w NewChat = newChat w"
| "step w SignOut = signOut w"
| "step w (SetAdviceOpen b) = setAdviceOpen w b"
| "step w (SetAdviceTopic t) = setAdviceTopic w t"
| "step w (ChangeAdvicePartner v) = changeAdvicePartner w v"
| "step w (ChangeAdviceSituation v) = changeAdviceSituation w v"
| "step w CloseAdvice = closeAdvice w"
| "step w (SetInputMessage v) = setInputMessage w v"
| "step w (AddRelationshipSubmit r l) = AddRelationship_handleSubmit w r l"
| "step w (WizardSubmit z r l) = fst (submit w z r l)"
| "step w Render = render w"

definition run :: "(string \<Rightarrow> string option) \<Rightarrow> action list \<Rightarrow> world" where
  "run st acts = foldl step (init st) acts"

section \<open>Example values\<close>

definition profile0 :: user_profile where
  "profile0 = \<lparr> up_name = ''Ann'', up_email = ''ann@example.org'', up_self_assessment = Null \<rparr>"

definition form0 :: onboarding_form where
  "form0 = \<lparr> ob_name = ''Ann'', ob_email = ''ann@example.org'', ob_personalityType = [],
     ob_loveLanguage = [], ob_communicationStyle = [] \<rparr>"

definition partner0 :: partner_profile where
  "partner0 = \<lparr> pp_name = ''Bo'', pp_personality_type = Undefined, pp_love_language = Null,
     pp_interests = Undefined, pp_preferences = Undefined \<rparr>"

definition advice1 :: advice where
  "advice1 = \<lparr> advice_id = Val ''a1'', topic = Val ''Trust'', adv_content = Val ''Talk.'',
     created_at = Val ''2025-01-01'', preview = Val ''Talk'' \<rparr>"

definition advice2 :: advice where
  "advice2 = \<lparr> advice_id = Val ''a2'', topic = Val ''Family'', adv_content = Val ''Listen.'',
     created_at = Val ''2025-01-02'', preview = Val ''Listen'' \<rparr>"

definition session0 :: session where
  "session0 = \<lparr> session_id = ''s1'', context_type = Val ''partner'',
     ses_relationship_type = Val ''romantic'', ses_partner_profile = Val partner0,
     updated_at = ''2025-01-03'' \<rparr>"

text \<open>
  A user has gone through the onboarding, the lists have been loaded, an advice is open and
  a message has been typed; a render follows each response that has set a state variable
  (two of the onboarding, five of the effect) and each of the two other actions.
\<close>

definition signed_in :: world where
  "signed_in = run Map.empty
     [Onboard 17 form0 (Response True ()) (Response True profile0), Render, Render,
      UserIdEffect (Response True profile0) (Response True (Val []))
        (Response True (Val [session0])) (Response True (Val [advice1, advice2, advice1]))
        (Response True (Val [session0])),
      Render, Render, Render, Render, Render,
      OpenAdvice advice2 (Response True advice2), Render,
      SetInputMessage ''hi'', Render]"

definition history0 :: "message history_response" where
  "history0 = \<lparr> hr_messages = Val [\<lparr> role = ''user'', content = ''hello'' \<rparr>,
                                     \<lparr> role = ''assistant'', content = ''hi Ann'' \<rparr>],
     hr_partner_profile = Val partner0, hr_relationship_type = Undefined \<rparr>"

definition history1 :: "message history_response" where
  "history1 = \<lparr> hr_messages = Null, hr_partner_profile = Undefined,
     hr_relationship_type = Val ''romantic'' \<rparr>"

definition history2 :: "message history_response" where
  "history2 = \<lparr> hr_messages = Val [], hr_partner_profile = Val partner0,
     hr_relationship_type = Val ''family'' \<rparr>"

definition relationship0 :: relationship where
  "relationship0 = \<lparr> rel_relationship_type = Val ''romantic'', rel_partner_profile = Val partner0 \<rparr>"

definition asking :: world where
  "asking = changeAdviceSituation signed_in ''help''"

section \<open>Properties\<close>

lemma newUserId_17: "newUserId 17 = ''user_17''"
  by (simp add: newUserId_def decimal.simps)

lemma signed_in_eq:
  "signed_in = \<lparr> currentView = chat, userId = Some ''user_17'', userProfile = Some profile0,
     relationships = [], selectedRelationship = None, messages = [],
     adviceOpen = False, adviceTopic = ''Communication'', adviceSituation = [],
     advicePartner = None, adviceLoading = False, adviceList = [advice1, advice2, advice1],
     selectedAdvice = Some advice2,
     sessions = [session0], inputMessage = ''hi'', sessionId = None, loading = False,
     sidebarOpen = False,
     localStorage = [USER_KEY \<mapsto> ''user_17''],
     storage_ops = [GetItem USER_KEY, SetItem USER_KEY ''user_17'',
       GetItem USER_KEY, GetItem USER_KEY, GetItem USER_KEY, GetItem USER_KEY, GetItem USER_KEY,
       GetItem USER_KEY, GetItem USER_KEY, GetItem USER_KEY, GetItem USER_KEY],
     console = [] \<rparr>"
  apply (simp add: signed_in_def run_def)
  apply (simp add: onboard_def Onboarding_handleSubmit_def or_undefined_def
      assessment_keys_def form0_def)
  apply (simp add: createUser_def loadUserProfile_def setInputMessage_def useEffect_userId_def
      loadRelationships_def loadSessions_def loadAdviceList_def openAdvice_def newUserId_17
      render_def)
  apply (simp add: init_def stored_user_def advice2_def)
  done

subsection \<open>Deleting an advice\<close>

lemma count_list_filter:
  "count_list (filter P xs) a = (if P a then count_list xs a else 0)"
  by (induction xs) auto

text \<open>
  C6. After a successful \<^verbatim>\<open>deleteAdvice\<close> the advice list holds no entry with the deleted
  identifier and every other entry as often as before; the advice in view becomes
  \<^verbatim>\<open>null\<close> exactly when its identifier is the deleted one (and stays \<^verbatim>\<open>null\<close> when
  none was in view).
\<close>

theorem deleteAdvice_removes:
  "(\<forall>a. count_list (adviceList (deleteAdvice w aid (Response True b))) a =
        (if advice_id a = aid then 0 else count_list (adviceList w) a)) \<and>
   (case selectedAdvice w of
      None \<Rightarrow> selectedAdvice (deleteAdvice w aid (Response True b)) = None
    | Some v \<Rightarrow>
        (selectedAdvice (deleteAdvice w aid (Response True b)) = None) = (advice_id v = aid))"
  by (auto simp: deleteAdvice_def Let_def count_list_filter split: option.splits)

theorem deleteAdvice_removes_witness:
  "advice_id advice1 = Val ''a1'' \<and> count_list (adviceList signed_in) advice1 = 2 \<and>
   count_list (adviceList (deleteAdvice signed_in (Val ''a1'') (Response True ()))) advice1 = 0 \<and>
   count_list (adviceList (deleteAdvice signed_in (Val ''a1'') (Response True ()))) advice2 = 1 \<and>
   selectedAdvice signed_in = Some advice2 \<and>
   selectedAdvice (deleteAdvice signed_in (Val ''a2'') (Response True ())) = None \<and>
   selectedAdvice (deleteAdvice signed_in (Val ''a1'') (Response True ())) \<noteq> None"
  using deleteAdvice_removes [of signed_in "Val ''a1''" "()"]
    deleteAdvice_removes [of signed_in "Val ''a2''" "()"]
  by (simp add: signed_in_eq advice1_def advice2_def)

text \<open>
  C9. A successful \<^verbatim>\<open>deleteAdvice\<close> keeps the entries with another identifier: the new
  list is a subsequence of the old one, so the order is the original one, and each such
  entry occurs as often as before. An advice in view with another identifier stays in view,
  and no advice comes into view when none was.
\<close>

theorem deleteAdvice_frame:
  "subseq (adviceList (deleteAdvice w aid (Response True b))) (adviceList w) \<and>
   (\<forall>a. advice_id a \<noteq> aid \<longrightarrow>
      count_list (adviceList (deleteAdvice w aid (Response True b))) a =
      count_list (adviceList w) a) \<and>
   (\<forall>v. selectedAdvice w = Some v \<and> advice_id v \<noteq> aid \<longrightarrow>
      selectedAdvice (deleteAdvice w aid (Response True b)) = Some v) \<and>
   (selectedAdvice w = None \<longrightarrow> selectedAdvice (deleteAdvice w aid (Response True b)) = None)"
  by (auto simp: deleteAdvice_def Let_def count_list_filter)

theorem deleteAdvice_frame_witness:
  "advice_id advice2 \<noteq> Val ''a1'' \<and> selectedAdvice signed_in = Some advice2 \<and>
   subseq (adviceList (deleteAdvice signed_in (Val ''a1'') (Response True ())))
     [advice1, advice2, advice1] \<and>
   count_list (adviceList (deleteAdvice signed_in (Val ''a1'') (Response True ()))) advice2 = 1 \<and>
   selectedAdvice (deleteAdvice signed_in (Val ''a1'') (Response True ())) = Some advice2 \<and>
   selectedAdvice (closeAdvice signed_in) = None \<and>
   selectedAdvice (deleteAdvice (closeAdvice signed_in) (Val ''a1'') (Response True ())) = None"
  using deleteAdvice_frame [of signed_in "Val ''a1''" "()"]
    deleteAdvice_frame [of "closeAdvice signed_in" "Val ''a1''" "()"]
  by (simp add: signed_in_eq advice1_def advice2_def closeAdvice_def)

subsection \<open>Opening a session\<close>

text \<open>
  C5. After \<^verbatim>\<open>openSession\<close> with a successful response: without a partner profile
  in the response (missing or \<^verbatim>\<open>null\<close>) the selected relationship is \<^verbatim>\<open>null\<close>;
  with one, the selected relationship is that profile with the relationship type of the
  response, or \<^verbatim>\<open>'general'\<close> when the response has none (missing, \<^verbatim>\<open>null\<close> or
  empty); the messages are those of the response, each with its role and content, and none
  when the response has no list; the session is the one opened.
\<close>

theorem openSession_ok:
  "(hr_partner_profile d = Undefined \<or> hr_partner_profile d = Null \<longrightarrow>
      selectedRelationship (openSession w s (Response True d)) = None) \<and>
   (\<forall>p t. hr_partner_profile d = Val p \<and> hr_relationship_type d = Val t \<and> t \<noteq> [] \<longrightarrow>
      selectedRelationship (openSession w s (Response True d)) =
        Some \<lparr> rel_relationship_type = Val t, rel_partner_profile = Val p \<rparr>) \<and>
   (\<forall>p. hr_partner_profile d = Val p \<and>
        (hr_relationship_type d = Undefined \<or> hr_relationship_type d = Null \<or>
         hr_relationship_type d = Val []) \<longrightarrow>
      selectedRelationship (openSession w s (Response True d)) =
        Some \<lparr> rel_relationship_type = Val ''general'', rel_partner_profile = Val p \<rparr>) \<and>
   (\<forall>ms. hr_messages d = Val ms \<longrightarrow>
      messages (openSession w s (Response True d)) =
        map (\<lambda>m. \<lparr> role = role m, content = content m \<rparr>) ms) \<and>
   (hr_messages d = Undefined \<or> hr_messages d = Null \<longrightarrow>
      messages (openSession w s (Response True d)) = []) \<and>
   sessionId (openSession w s (Response True d)) = Some (session_id s)"
  by (auto simp: openSession_def)

theorem openSession_ok_witness:
  "hr_partner_profile history1 = Undefined \<and>
   selectedRelationship (openSession signed_in session0 (Response True history1)) = None \<and>
   hr_messages history1 = Null \<and>
   messages (openSession signed_in session0 (Response True history1)) = [] \<and>
   hr_partner_profile history0 = Val partner0 \<and> hr_relationship_type history0 = Undefined \<and>
   selectedRelationship (openSession signed_in session0 (Response True history0)) =
     Some \<lparr> rel_relationship_type = Val ''general'', rel_partner_profile = Val partner0 \<rparr> \<and>
   hr_messages history0 = Val [\<lparr> role = ''user'', content = ''hello'' \<rparr>,
                               \<lparr> role = ''assistant'', content = ''hi Ann'' \<rparr>] \<and>
   messages (openSession signed_in session0 (Response True history0)) =
     [\<lparr> role = ''user'', content = ''hello'' \<rparr>, \<lparr> role = ''assistant'', content = ''hi Ann'' \<rparr>] \<and>
   hr_partner_profile history2 = Val partner0 \<and> hr_relationship_type history2 = Val ''family'' \<and>
   selectedRelationship (openSession signed_in session0 (Response True history2)) =
     Some \<lparr> rel_relationship_type = Val ''family'', rel_partner_profile = Val partner0 \<rparr>"
  using openSession_ok [of history1 signed_in session0]
    openSession_ok [of history0 signed_in session0]
    openSession_ok [of history2 signed_in session0]
  by (simp add: history0_def history1_def history2_def)

subsection \<open>Sending a message\<close>

text \<open>
  C2. When the input is not blank, \<^verbatim>\<open>sendMessage\<close> appends the user's message before
  the request (the handler is the part before the request followed by the part after it),
  and the part after the request appends one assistant message with the content of the
  response exactly when the response is successful; after a rejected request or a response
  that is not \<^verbatim>\<open>ok\<close> the list ends with the user's message.
\<close>

theorem sendMessage_appends:
  "trim (inputMessage w) \<noteq> [] \<Longrightarrow>
     messages (sendMessage_before w) =
       messages w @ [\<lparr> role = ''user'', content = inputMessage w \<rparr>] \<and>
     sendMessage w r = sendMessage_after (sendMessage_before w) r \<and>
     (\<forall>d. r = Response True d \<longrightarrow>
        messages (sendMessage w r) =
          messages w @ [\<lparr> role = ''user'', content = inputMessage w \<rparr>,
                        \<lparr> role = ''assistant'', content = cr_response d \<rparr>]) \<and>
     (failed r \<longrightarrow>
        messages (sendMessage w r) =
          messages w @ [\<lparr> role = ''user'', content = inputMessage w \<rparr>]) \<and>
     ((\<exists>a. role a = ''assistant'' \<and>
           messages (sendMessage w r) =
             messages w @ [\<lparr> role = ''user'', content = inputMessage w \<rparr>, a]) = (\<not> failed r))"
  by (cases r) (auto simp: sendMessage_def sendMessage_before_def sendMessage_after_def)

lemma trim_hi: "trim ''hi'' = ''hi''"
  by (simp add: trim_def js_space_def)

theorem sendMessage_appends_witness:
  "trim (inputMessage signed_in) \<noteq> [] \<and>
   messages (sendMessage signed_in (Response True \<lparr> cr_session_id = ''s9'', cr_response = ''Hello!'' \<rparr>)) =
     [\<lparr> role = ''user'', content = ''hi'' \<rparr>, \<lparr> role = ''assistant'', content = ''Hello!'' \<rparr>] \<and>
   messages (sendMessage signed_in (Response False \<lparr> cr_session_id = [], cr_response = [] \<rparr>)) =
     [\<lparr> role = ''user'', content = ''hi'' \<rparr>] \<and>
   messages (sendMessage signed_in Rejected) = [\<lparr> role = ''user'', content = ''hi'' \<rparr>]"
  using sendMessage_appends [of signed_in "Response True \<lparr> cr_session_id = ''s9'', cr_response = ''Hello!'' \<rparr>"]
    sendMessage_appends [of signed_in "Response False \<lparr> cr_session_id = [], cr_response = [] \<rparr>"]
    sendMessage_appends [of signed_in Rejected]
  by (simp add: signed_in_eq trim_hi sendMessage_def sendMessage_before_def sendMessage_after_def)

subsection \<open>The body of a chat request\<close>

text \<open>
  C8, as stated, fails: with no relationship selected the value of \<^verbatim>\<open>partner_profile\<close> is
  \<^verbatim>\<open>undefined\<close>, and the body that \<^verbatim>\<open>JSON.stringify\<close> writes has no such field.
\<close>

theorem chat_body_fields_counterexample:
  "selectedRelationship signed_in = None \<and>
   object_keys (chat_body signed_in) =
     [''user_id'', ''message'', ''relationship_type'', ''self_assessment'', ''session_id''] \<and>
   property (chat_body signed_in) ''partner_profile'' = None"
  by (simp add: signed_in_eq chat_body_def chat_object_def stringify_def profile0_def)

text \<open>
  C8, amended. The object that \<^verbatim>\<open>sendMessage\<close> serialises has exactly the six
  properties. The body sent has \<^verbatim>\<open>user_id\<close>, \<^verbatim>\<open>message\<close>, \<^verbatim>\<open>relationship_type\<close> and
  \<^verbatim>\<open>session_id\<close> always, \<^verbatim>\<open>partner_profile\<close> unless no relationship is selected or the
  selected one has no such property, and \<^verbatim>\<open>self_assessment\<close> unless the profile has no such
  property, in this order and no other field. The relationship type sent is the one of the
  selected relationship, or \<^verbatim>\<open>'general'\<close> when none is selected or its type is missing or
  empty. After a successful response to a non-blank input the session is the one returned.
\<close>

theorem chat_body_fields:
  "map fst (chat_object w) =
     [''user_id'', ''message'', ''relationship_type'', ''partner_profile'', ''self_assessment'',
      ''session_id''] \<and>
   object_keys (chat_body w) =
     [''user_id'', ''message'', ''relationship_type''] @
     (if chain (selectedRelationship w) rel_partner_profile = Undefined then []
      else [''partner_profile'']) @
     (if chain (userProfile w) up_self_assessment = Undefined then [] else [''self_assessment'']) @
     [''session_id''] \<and>
   property (chat_body w) ''user_id'' = Some (nullable (userId w)) \<and>
   property (chat_body w) ''message'' = Some (JString (inputMessage w)) \<and>
   property (chat_body w) ''relationship_type'' =
     Some (JString (case selectedRelationship w of
                      None \<Rightarrow> ''general''
                    | Some rel \<Rightarrow> str_or (rel_relationship_type rel) ''general'')) \<and>
   property (chat_body w) ''session_id'' = Some (nullable (sessionId w)) \<and>
   rq_body (chat_request w) = Some (chat_body w) \<and>
   (trim (inputMessage w) \<noteq> [] \<longrightarrow>
      sessionId (sendMessage w (Response True d)) = Some (cr_session_id d))"
proof -
  have keys: "object_keys (stringify kvs) = map fst (props kvs)" for kvs
    by (simp add: stringify_def)
  have enc_None: "(enc f x = None) = (x = Undefined)" for f :: "'a \<Rightarrow> json" and x
    by (cases x) simp_all
  have 1: "object_keys (chat_body w) =
     [''user_id'', ''message'', ''relationship_type''] @
     (if chain (selectedRelationship w) rel_partner_profile = Undefined then []
      else [''partner_profile'']) @
     (if chain (userProfile w) up_self_assessment = Undefined then [] else [''self_assessment'']) @
     [''session_id'']"
    by (cases "chain (selectedRelationship w) rel_partner_profile";
        cases "chain (userProfile w) up_self_assessment")
       (simp_all add: chat_body_def chat_object_def keys)
  have 2: "property (chat_body w) ''user_id'' = Some (nullable (userId w))"
    "property (chat_body w) ''message'' = Some (JString (inputMessage w))"
    "property (chat_body w) ''relationship_type'' =
       Some (JString (str_or (chain (selectedRelationship w) rel_relationship_type) ''general''))"
    by (simp_all add: chat_body_def chat_object_def stringify_def)
  have 3: "property (chat_body w) ''session_id'' = Some (nullable (sessionId w))"
    by (cases "chain (selectedRelationship w) rel_partner_profile";
        cases "chain (userProfile w) up_self_assessment")
       (simp_all add: chat_body_def chat_object_def stringify_def)
  have 4: "str_or (chain (selectedRelationship w) rel_relationship_type) ''general'' =
     (case selectedRelationship w of
        None \<Rightarrow> ''general'' | Some rel \<Rightarrow> str_or (rel_relationship_type rel) ''general'')"
    by (cases "selectedRelationship w") simp_all
  have 5: "trim (inputMessage w) \<noteq> [] \<longrightarrow>
      sessionId (sendMessage w (Response True d)) = Some (cr_session_id d)"
    by (simp add: sendMessage_def sendMessage_before_def sendMessage_after_def)
  show ?thesis
    using 1 2 3 4 5 by (simp add: chat_object_def chat_request_def)
qed

theorem chat_body_fields_witness:
  "trim (inputMessage signed_in) \<noteq> [] \<and>
   sessionId (sendMessage signed_in
     (Response True \<lparr> cr_session_id = ''s9'', cr_response = ''Hello!'' \<rparr>)) = Some ''s9'' \<and>
   object_keys (chat_body (selectRelationship signed_in relationship0)) =
     [''user_id'', ''message'', ''relationship_type'', ''partner_profile'', ''self_assessment'',
      ''session_id''] \<and>
   property (chat_body (selectRelationship signed_in relationship0)) ''relationship_type'' =
     Some (JString ''romantic'') \<and>
   property (chat_body signed_in) ''relationship_type'' = Some (JString ''general'')"
  using chat_body_fields [of signed_in "\<lparr> cr_session_id = ''s9'', cr_response = ''Hello!'' \<rparr>"]
    chat_body_fields [of "selectRelationship signed_in relationship0"]
  by (simp add: signed_in_eq trim_hi selectRelationship_def relationship0_def profile0_def)

subsection \<open>Onboarding and the creation of the user\<close>

text \<open>
  C4. When the onboarding form is submitted with a name and an email and the three optional
  fields empty, \<^verbatim>\<open>handleSubmit\<close> passes \<^verbatim>\<open>null\<close> as the assessment, the client sends
  \<^verbatim>\<open>POST /api/users\<close>, and the body carries no self-assessment: its
  \<^verbatim>\<open>self_assessment\<close> is \<^verbatim>\<open>null\<close>. A successful response makes the generated
  identifier the current user.
\<close>

theorem onboarding_without_assessment:
  "ob_name f \<noteq> [] \<Longrightarrow> ob_email f \<noteq> [] \<Longrightarrow> ob_personalityType f = [] \<Longrightarrow>
   ob_loveLanguage f = [] \<Longrightarrow> ob_communicationStyle f = [] \<Longrightarrow>
     Onboarding_handleSubmit f = (ob_name f, ob_email f, Null) \<and>
     onboard_request now f =
       \<lparr> rq_method = POST, rq_url = ''http://localhost:8000/api/users'',
         rq_body = Some (JObject [(''user_id'', JString (newUserId now)),
                                  (''name'', JString (ob_name f)),
                                  (''email'', JString (ob_email f)),
                                  (''self_assessment'', JNull)]) \<rparr> \<and>
     userId (onboard w now f (Response True b) p) = Some (newUserId now)"
proof -
  assume a: "ob_personalityType f = []" "ob_loveLanguage f = []" "ob_communicationStyle f = []"
  have h: "Onboarding_handleSubmit f = (ob_name f, ob_email f, Null)"
    using a by (simp add: Onboarding_handleSubmit_def or_undefined_def assessment_keys_def)
  have r: "createUser_request now (ob_name f) (ob_email f) Null =
       \<lparr> rq_method = POST, rq_url = ''http://localhost:8000/api/users'',
         rq_body = Some (JObject [(''user_id'', JString (newUserId now)),
                                  (''name'', JString (ob_name f)),
                                  (''email'', JString (ob_email f)),
                                  (''self_assessment'', JNull)]) \<rparr>"
    by (simp add: createUser_request_def stringify_def API_BASE_URL_def)
  have u: "userId (createUser w now (ob_name f) (ob_email f) Null (Response True b) p) =
      Some (newUserId now)"
    by (cases p) (simp_all add: createUser_def loadUserProfile_def)
  show ?thesis
    using h r u by (simp add: onboard_request_def onboard_def)
qed

theorem onboarding_without_assessment_witness:
  "ob_name form0 \<noteq> [] \<and> ob_email form0 \<noteq> [] \<and> ob_personalityType form0 = [] \<and>
   ob_loveLanguage form0 = [] \<and> ob_communicationStyle form0 = [] \<and>
   onboard_request 17 form0 =
     \<lparr> rq_method = POST, rq_url = ''http://localhost:8000/api/users'',
       rq_body = Some (JObject [(''user_id'', JString ''user_17''),
                                (''name'', JString ''Ann''),
                                (''email'', JString ''ann@example.org''),
                                (''self_assessment'', JNull)]) \<rparr> \<and>
   userId (onboard (init Map.empty) 17 form0 (Response True ()) (Response True profile0)) =
     Some ''user_17''"
  using onboarding_without_assessment [of form0 17 "init Map.empty" "()" "Response True profile0"]
  by (simp add: form0_def newUserId_17)

text \<open>
  C10. \<^verbatim>\<open>createUser\<close> stores the generated identifier and makes it the current user
  when the response is successful. When the request is rejected or the response is not
  \<^verbatim>\<open>ok\<close>, local storage, the current user and the profile are as before, so a user that
  was unset is still unset and the onboarding screen is still shown.
\<close>

theorem createUser_stores_on_success_only:
  "(\<forall>b. r = Response True b \<longrightarrow>
      userId (createUser w now name email a r p) = Some (newUserId now) \<and>
      localStorage (createUser w now name email a r p) USER_KEY = Some (newUserId now) \<and>
      storage_ops (createUser w now name email a r p) =
        storage_ops w @ [SetItem USER_KEY (newUserId now)]) \<and>
   (failed r \<longrightarrow>
      userId (createUser w now name email a r p) = userId w \<and>
      localStorage (createUser w now name email a r p) = localStorage w \<and>
      storage_ops (createUser w now name email a r p) = storage_ops w \<and>
      userProfile (createUser w now name email a r p) = userProfile w \<and>
      (userId w = None \<longrightarrow> userId (createUser w now name email a r p) = None) \<and>
      (shows_onboarding w \<longrightarrow> shows_onboarding (createUser w now name email a r p)))"
  by (cases r; cases p) (simp_all add: createUser_def loadUserProfile_def shows_onboarding_def)

theorem createUser_stores_on_success_only_witness:
  "userId (createUser (init Map.empty) 17 ''Ann'' ''ann@example.org'' Null
     (Response True ()) (Response True profile0)) = Some ''user_17'' \<and>
   localStorage (createUser (init Map.empty) 17 ''Ann'' ''ann@example.org'' Null
     (Response True ()) (Response True profile0)) USER_KEY = Some ''user_17'' \<and>
   failed (Rejected :: unit fetch_result) \<and> failed (Response False ()) \<and>
   userId (init Map.empty) = None \<and> shows_onboarding (init Map.empty) \<and>
   userId (createUser (init Map.empty) 17 ''Ann'' ''ann@example.org'' Null
     (Rejected :: unit fetch_result) (Response True profile0)) = None \<and>
   localStorage (createUser (init Map.empty) 17 ''Ann'' ''ann@example.org'' Null
     (Response False ()) (Response True profile0)) USER_KEY = None \<and>
   shows_onboarding (createUser (init Map.empty) 17 ''Ann'' ''ann@example.org'' Null
     (Response False ()) (Response True profile0))"
  using createUser_stores_on_success_only [of "Response True ()" "init Map.empty" 17
      "''Ann''" "''ann@example.org''" Null "Response True profile0"]
    createUser_stores_on_success_only [of "Rejected :: unit fetch_result" "init Map.empty" 17
      "''Ann''" "''ann@example.org''" Null "Response True profile0"]
    createUser_stores_on_success_only [of "Response False ()" "init Map.empty" 17
      "''Ann''" "''ann@example.org''" Null "Response True profile0"]
  by (simp add: newUserId_17 init_def stored_user_def shows_onboarding_def)

subsection \<open>Invariants of the runs\<close>

lemmas loader_defs =
  loadUserProfile_def loadRelationships_def loadSessions_def loadAdviceList_def

lemmas handler_defs =
  openSession_def useEffect_userId_def onboard_def createUser_def sendMessage_def
  sendMessage_before_def sendMessage_after_def submitAdvice_def openAdvice_def deleteAdvice_def
  toggleSidebar_def setCurrentView_def selectRelationship_def newChat_def signOut_def
  setAdviceOpen_def setAdviceTopic_def changeAdvicePartner_def changeAdviceSituation_def
  closeAdvice_def setInputMessage_def AddRelationship_handleSubmit_def onSuccess_def
  onSaved_def submit_def render_def

lemma loaders_adviceSituation [simp]:
  "adviceSituation (loadUserProfile w r1) = adviceSituation w"
  "adviceSituation (loadRelationships w r2) = adviceSituation w"
  "adviceSituation (loadSessions w r3) = adviceSituation w"
  "adviceSituation (loadAdviceList w r4) = adviceSituation w"
  by (simp_all add: loader_defs split: fetch_result.splits)

lemma loaders_localStorage [simp]:
  "localStorage (loadUserProfile w r1) = localStorage w"
  "localStorage (loadRelationships w r2) = localStorage w"
  "localStorage (loadSessions w r3) = localStorage w"
  "localStorage (loadAdviceList w r4) = localStorage w"
  by (simp_all add: loader_defs split: fetch_result.splits)

lemma loaders_storage_ops [simp]:
  "storage_ops (loadUserProfile w r1) = storage_ops w"
  "storage_ops (loadRelationships w r2) = storage_ops w"
  "storage_ops (loadSessions w r3) = storage_ops w"
  "storage_ops (loadAdviceList w r4) = storage_ops w"
  by (simp_all add: loader_defs split: fetch_result.splits)

lemma run_snoc: "run st (acts @ [a]) = step (run st acts) a"
  by (simp add: run_def)

lemma step_adviceSituation:
  "length (adviceSituation w) \<le> 1000 \<Longrightarrow> length (adviceSituation (step w a)) \<le> 1000"
  by (cases a)
     (auto simp: handler_defs slice0_def Let_def split: fetch_result.splits prod.splits)

lemma run_adviceSituation: "length (adviceSituation (run st acts)) \<le> 1000"
proof (induction acts rule: rev_induct)
  case Nil
  show ?case by (simp add: run_def init_def)
next
  case (snoc a acts)
  then show ?case by (simp add: run_snoc step_adviceSituation)
qed

lemma step_localStorage:
  "k \<noteq> USER_KEY \<Longrightarrow> localStorage (step w a) k = localStorage w k"
  by (cases a)
     (auto simp: handler_defs Let_def split: fetch_result.splits prod.splits)

lemma step_storage_ops:
  "\<exists>ops. storage_ops (step w a) = storage_ops w @ ops \<and>
     (\<forall>x \<in> set ops. x = GetItem USER_KEY \<or> x = RemoveItem USER_KEY \<or>
        (\<exists>now. x = SetItem USER_KEY (newUserId now)))"
  by (cases a)
     (auto simp: handler_defs Let_def split: fetch_result.splits prod.splits)

lemma run_storage_ops:
  "\<forall>x \<in> set (storage_ops (run st acts)).
     x = GetItem USER_KEY \<or> x = RemoveItem USER_KEY \<or> (\<exists>now. x = SetItem USER_KEY (newUserId now))"
proof (induction acts rule: rev_induct)
  case Nil
  show ?case by (simp add: run_def init_def)
next
  case (snoc a acts)
  obtain ops where "storage_ops (step (run st acts) a) = storage_ops (run st acts) @ ops"
    and "\<forall>x \<in> set ops. x = GetItem USER_KEY \<or> x = RemoveItem USER_KEY \<or>
      (\<exists>now. x = SetItem USER_KEY (newUserId now))"
    using step_storage_ops by blast
  with snoc show ?case by (auto simp: run_snoc)
qed

lemma run_localStorage: "k \<noteq> USER_KEY \<Longrightarrow> localStorage (run st acts) k = st k"
proof (induction acts rule: rev_induct)
  case Nil
  show ?case by (simp add: run_def init_def)
next
  case (snoc a acts)
  then show ?case by (simp add: run_snoc step_localStorage)
qed

subsection \<open>The advice situation\<close>

text \<open>
  C3. In every run the situation text held in the state, whose length the form displays, has
  at most 1000 characters: what the text area stores is the first 1000 characters of what was
  typed. The \<^verbatim>\<open>situation\<close> of the payload that \<^verbatim>\<open>submitAdvice\<close> posts is the first
  1000 characters of the state's text, which in a run is the text itself.
\<close>

theorem adviceSituation_at_most_1000:
  "length (adviceSituation (run st acts)) \<le> 1000 \<and>
   adviceSituation (changeAdviceSituation w v) = take 1000 v \<and>
   rq_body (advice_request w) = Some (payload w) \<and>
   property (payload w) ''situation'' = Some (JString (take 1000 (adviceSituation w))) \<and>
   length (take 1000 (adviceSituation w)) \<le> 1000 \<and>
   property (payload (run st acts)) ''situation'' = Some (JString (adviceSituation (run st acts)))"
proof -
  have p: "property (payload u) ''situation'' = Some (JString (take 1000 (adviceSituation u)))"
    for u
    by (simp add: payload_def stringify_def slice0_def)
  show ?thesis
    using run_adviceSituation [of st acts]
    by (simp add: p changeAdviceSituation_def slice0_def advice_request_def)
qed

theorem adviceSituation_at_most_1000_witness:
  "adviceSituation (run Map.empty [SetAdviceOpen True,
      ChangeAdviceSituation (replicate 1001 (CHR ''x''))]) = replicate 1000 (CHR ''x'') \<and>
   length (adviceSituation (run Map.empty [SetAdviceOpen True,
      ChangeAdviceSituation (replicate 1001 (CHR ''x''))])) \<le> 1000 \<and>
   property (payload (run Map.empty [SetAdviceOpen True,
      ChangeAdviceSituation (replicate 1001 (CHR ''x''))])) ''situation'' =
     Some (JString (replicate 1000 (CHR ''x'')))"
  using adviceSituation_at_most_1000 [of Map.empty
      "[SetAdviceOpen True, ChangeAdviceSituation (replicate 1001 (CHR ''x''))]"
      "run Map.empty [SetAdviceOpen True]" "replicate 1001 (CHR ''x'')"]
  by (simp add: run_def setAdviceOpen_def changeAdviceSituation_def slice0_def)

subsection \<open>Local storage\<close>

text \<open>
  C7. In every run each operation on local storage (the read at every render, the first and
  the later ones, the write of \<^verbatim>\<open>createUser\<close>, the removal of the sign-out) uses the key
  \<^verbatim>\<open>'luvvtapp_user_id'\<close>, each value written is a generated user identifier, and the
  entries under all other keys are those the browser had at the start. The first render reads
  the user from that key; a later render reads the key again and changes neither the storage
  nor the user; the sign-out removes the entry and unsets the user.
\<close>

theorem local_storage_user_key_only:
  "(\<forall>x \<in> set (storage_ops (run st acts)). op_key x = ''luvvtapp_user_id'') \<and>
   (\<forall>k v. SetItem k v \<in> set (storage_ops (run st acts)) \<longrightarrow> (\<exists>now. v = newUserId now)) \<and>
   (\<forall>k. k \<noteq> ''luvvtapp_user_id'' \<longrightarrow> localStorage (run st acts) k = st k) \<and>
   storage_ops (init st) = [GetItem ''luvvtapp_user_id''] \<and>
   userId (init st) =
     (case st ''luvvtapp_user_id'' of None \<Rightarrow> None | Some v \<Rightarrow> if v = [] then None else Some v) \<and>
   storage_ops (render w) = storage_ops w @ [GetItem ''luvvtapp_user_id''] \<and>
   localStorage (render w) = localStorage w \<and>
   userId (render w) = userId w \<and>
   storage_ops (signOut w) = storage_ops w @ [RemoveItem ''luvvtapp_user_id''] \<and>
   localStorage (signOut w) ''luvvtapp_user_id'' = None \<and>
   userId (signOut w) = None"
proof -
  have 1: "\<forall>x \<in> set (storage_ops (run st acts)). op_key x = ''luvvtapp_user_id''"
    using run_storage_ops [of st acts] by (auto simp: USER_KEY_def)
  have 2: "\<forall>k v. SetItem k v \<in> set (storage_ops (run st acts)) \<longrightarrow> (\<exists>now. v = newUserId now)"
    using run_storage_ops [of st acts] by auto
  have 3: "\<forall>k. k \<noteq> ''luvvtapp_user_id'' \<longrightarrow> localStorage (run st acts) k = st k"
    using run_localStorage [of _ st acts] by (simp add: USER_KEY_def)
  show ?thesis
    using 1 2 3 by (simp add: init_def stored_user_def signOut_def render_def USER_KEY_def)
qed

text \<open>
  The run of the witness: the onboarding succeeds and its profile request too, with a render
  after each of the two responses; then the user signs out, and the application renders
  again.
\<close>

theorem local_storage_user_key_only_witness:
  "storage_ops (run [''theme'' \<mapsto> ''dark'']
     [Onboard 17 form0 (Response True ()) (Response True profile0), Render, Render,
      SignOut, Render]) =
     [GetItem ''luvvtapp_user_id'', SetItem ''luvvtapp_user_id'' ''user_17'',
      GetItem ''luvvtapp_user_id'', GetItem ''luvvtapp_user_id'',
      RemoveItem ''luvvtapp_user_id'', GetItem ''luvvtapp_user_id''] \<and>
   op_key (GetItem ''luvvtapp_user_id'') = ''luvvtapp_user_id'' \<and>
   op_key (SetItem ''luvvtapp_user_id'' ''user_17'') = ''luvvtapp_user_id'' \<and>
   op_key (RemoveItem ''luvvtapp_user_id'') = ''luvvtapp_user_id'' \<and>
   ''theme'' \<noteq> ''luvvtapp_user_id'' \<and>
   localStorage (run [''theme'' \<mapsto> ''dark'']
     [Onboard 17 form0 (Response True ()) (Response True profile0), Render, Render,
      SignOut, Render]) ''theme'' = Some ''dark'' \<and>
   localStorage (run [''theme'' \<mapsto> ''dark'']
     [Onboard 17 form0 (Response True ()) (Response True profile0), Render, Render])
     ''luvvtapp_user_id'' = Some ''user_17'' \<and>
   userId (run [''theme'' \<mapsto> ''dark'']
     [Onboard 17 form0 (Response True ()) (Response True profile0), Render, Render]) =
     Some ''user_17'' \<and>
   localStorage (run [''theme'' \<mapsto> ''dark'']
     [Onboard 17 form0 (Response True ()) (Response True profile0), Render, Render,
      SignOut, Render]) ''luvvtapp_user_id'' = None \<and>
   userId (run [''theme'' \<mapsto> ''dark'']
     [Onboard 17 form0 (Response True ()) (Response True profile0), Render, Render,
      SignOut, Render]) = None"
proof -
  have e: "Onboarding_handleSubmit form0 = (''Ann'', ''ann@example.org'', Null)"
    by (simp add: Onboarding_handleSubmit_def or_undefined_def assessment_keys_def form0_def)
  show ?thesis
    using local_storage_user_key_only [of "[''theme'' \<mapsto> ''dark'']"
      "[Onboard 17 form0 (Response True ()) (Response True profile0), Render, Render,
        SignOut, Render]"
      "run [''theme'' \<mapsto> ''dark'']
        [Onboard 17 form0 (Response True ()) (Response True profile0), Render, Render]"]
    by (simp add: run_def onboard_def e createUser_def loadUserProfile_def signOut_def
        render_def newUserId_17 USER_KEY_def init_def)
qed

subsection \<open>Failed requests\<close>

text \<open>
  C1, as stated, fails in three ways. After a failed request \<^verbatim>\<open>sendMessage\<close> leaves the
  user's message in the list and the input empty; a response that is not \<^verbatim>\<open>ok\<close> is not
  logged; and the \<^verbatim>\<open>submit\<close> of the partner-profile wizard does not catch a rejected
  request: nothing is logged and the rejection leaves the handler.
\<close>

theorem failures_counterexample:
  "messages signed_in = [] \<and>
   messages (sendMessage signed_in Rejected) = [\<lparr> role = ''user'', content = ''hi'' \<rparr>] \<and>
   inputMessage signed_in = ''hi'' \<and>
   inputMessage (sendMessage signed_in Rejected) = [] \<and>
   console (openSession signed_in session0 (Response False history1)) = console signed_in \<and>
   submit signed_in wizard_init (Rejected :: unit fetch_result) (Response True Null) =
     (signed_in, wizard_init, Threw)"
  by (simp add: signed_in_eq trim_hi sendMessage_def sendMessage_before_def sendMessage_after_def
      openSession_def submit_def wizard_init_def)

text \<open>
  C1, amended. For each request made by the handlers of \<^verbatim>\<open>App\<close> and by the
  \<^verbatim>\<open>handleSubmit\<close> of \<^verbatim>\<open>AddRelationshipView\<close>: a rejected request is caught and logged
  with one \<^verbatim>\<open>console.error\<close> line, a response that is not \<^verbatim>\<open>ok\<close> is ignored without
  a line, and in both cases everything else is as before the call, with two exceptions:
  \<^verbatim>\<open>sendMessage\<close> has appended the user's message and emptied the input, and its
  \<^verbatim>\<open>loading\<close> flag ends false; the \<^verbatim>\<open>adviceLoading\<close> flag of \<^verbatim>\<open>submitAdvice\<close> ends
  false. Nothing is said about the wizard's \<^verbatim>\<open>submit\<close>.
\<close>

theorem failures_are_ignored:
  "(failed r1 \<longrightarrow> openSession w s r1 =
      w\<lparr> console := console w @ (if r1 = Rejected then [''Error opening session:''] else []) \<rparr>) \<and>
   (failed r2 \<longrightarrow> loadUserProfile w r2 =
      w\<lparr> console := console w @ (if r2 = Rejected then [''Error loading profile:''] else []) \<rparr>) \<and>
   (failed r3 \<longrightarrow> loadRelationships w r3 =
      w\<lparr> console := console w @
           (if r3 = Rejected then [''Error loading relationships:''] else []) \<rparr>) \<and>
   (failed r4 \<and> \<not> falsy_id (userId w) \<longrightarrow> loadAdviceList w r4 =
      w\<lparr> console := console w @
           (if r4 = Rejected then [''Error loading advice list:''] else []) \<rparr>) \<and>
   (failed r5 \<and> \<not> falsy_id (userId w) \<longrightarrow> loadSessions w r5 =
      w\<lparr> console := console w @ (if r5 = Rejected then [''Error loading sessions:''] else []) \<rparr>) \<and>
   (failed r6 \<longrightarrow> createUser w now name email a r6 p =
      w\<lparr> console := console w @ (if r6 = Rejected then [''Error creating user:''] else []) \<rparr>) \<and>
   (failed r7 \<and> trim (inputMessage w) \<noteq> [] \<longrightarrow> sendMessage w r7 =
      w\<lparr> messages := messages w @ [\<lparr> role = ''user'', content = inputMessage w \<rparr>],
         inputMessage := [], loading := False,
         console := console w @ (if r7 = Rejected then [''Error sending message:''] else []) \<rparr>) \<and>
   (failed r8 \<and> adviceTopic w \<noteq> [] \<and> trim (adviceSituation w) \<noteq> [] \<longrightarrow>
      submitAdvice w r8 l =
      w\<lparr> adviceLoading := False,
         console := console w @ (if r8 = Rejected then [''Advice request failed:''] else []) \<rparr>) \<and>
   (failed r9 \<and> \<not> falsy_str (advice_id item) \<longrightarrow> openAdvice w item r9 =
      w\<lparr> console := console w @ (if r9 = Rejected then [''Failed to open advice:''] else []) \<rparr>) \<and>
   (failed r10 \<longrightarrow> deleteAdvice w aid r10 =
      w\<lparr> console := console w @ (if r10 = Rejected then [''Failed to delete advice:''] else []) \<rparr>) \<and>
   (failed r11 \<longrightarrow> AddRelationship_handleSubmit w r11 reload =
      w\<lparr> console := console w @
           (if r11 = Rejected then [''Error creating relationship:''] else []) \<rparr>)"
proof -
  have 1: "failed r1 \<longrightarrow> openSession w s r1 =
      w\<lparr> console := console w @ (if r1 = Rejected then [''Error opening session:''] else []) \<rparr>"
    by (cases r1) (simp_all add: openSession_def)
  have 2: "failed r2 \<longrightarrow> loadUserProfile w r2 =
      w\<lparr> console := console w @ (if r2 = Rejected then [''Error loading profile:''] else []) \<rparr>"
    by (cases r2) (simp_all add: loadUserProfile_def)
  have 3: "failed r3 \<longrightarrow> loadRelationships w r3 =
      w\<lparr> console := console w @
           (if r3 = Rejected then [''Error loading relationships:''] else []) \<rparr>"
    by (cases r3) (simp_all add: loadRelationships_def)
  have 4: "failed r4 \<and> \<not> falsy_id (userId w) \<longrightarrow> loadAdviceList w r4 =
      w\<lparr> console := console w @
           (if r4 = Rejected then [''Error loading advice list:''] else []) \<rparr>"
    by (cases r4) (simp_all add: loadAdviceList_def)
  have 5: "failed r5 \<and> \<not> falsy_id (userId w) \<longrightarrow> loadSessions w r5 =
      w\<lparr> console := console w @ (if r5 = Rejected then [''Error loading sessions:''] else []) \<rparr>"
    by (cases r5) (simp_all add: loadSessions_def)
  have 6: "failed r6 \<longrightarrow> createUser w now name email a r6 p =
      w\<lparr> console := console w @ (if r6 = Rejected then [''Error creating user:''] else []) \<rparr>"
    by (cases r6) (simp_all add: createUser_def)
  have 7: "failed r7 \<and> trim (inputMessage w) \<noteq> [] \<longrightarrow> sendMessage w r7 =
      w\<lparr> messages := messages w @ [\<lparr> role = ''user'', content = inputMessage w \<rparr>],
         inputMessage := [], loading := False,
         console := console w @ (if r7 = Rejected then [''Error sending message:''] else []) \<rparr>"
    by (cases r7) (simp_all add: sendMessage_def sendMessage_before_def sendMessage_after_def)
  have 8: "failed r8 \<and> adviceTopic w \<noteq> [] \<and> trim (adviceSituation w) \<noteq> [] \<longrightarrow>
      submitAdvice w r8 l =
      w\<lparr> adviceLoading := False,
         console := console w @ (if r8 = Rejected then [''Advice request failed:''] else []) \<rparr>"
    by (cases r8) (simp_all add: submitAdvice_def)
  have 9: "failed r9 \<and> \<not> falsy_str (advice_id item) \<longrightarrow> openAdvice w item r9 =
      w\<lparr> console := console w @ (if r9 = Rejected then [''Failed to open advice:''] else []) \<rparr>"
    by (cases r9) (simp_all add: openAdvice_def)
  have 10: "failed r10 \<longrightarrow> deleteAdvice w aid r10 =
      w\<lparr> console := console w @ (if r10 = Rejected then [''Failed to delete advice:''] else []) \<rparr>"
    by (cases r10) (simp_all add: deleteAdvice_def)
  have 11: "failed r11 \<longrightarrow> AddRelationship_handleSubmit w r11 reload =
      w\<lparr> console := console w @
           (if r11 = Rejected then [''Error creating relationship:''] else []) \<rparr>"
    by (cases r11) (simp_all add: AddRelationship_handleSubmit_def)
  from 1 2 3 4 5 6 7 8 9 10 11 show ?thesis by blast
qed

lemma asking_fields:
  "userId asking = Some ''user_17''" "inputMessage asking = ''hi''" "messages asking = []"
  "adviceTopic asking = ''Communication''" "adviceSituation asking = ''help''"
  "console asking = []"
  by (simp_all add: asking_def changeAdviceSituation_def slice0_def signed_in_eq)

lemma trim_help: "trim ''help'' = ''help''"
  by (simp add: trim_def js_space_def)

theorem failures_are_ignored_witness:
  "failed (Rejected :: unit fetch_result) \<and> failed (Response False history1) \<and>
   \<not> falsy_id (userId asking) \<and> trim (inputMessage asking) \<noteq> [] \<and>
   adviceTopic asking \<noteq> [] \<and> trim (adviceSituation asking) \<noteq> [] \<and>
   \<not> falsy_str (advice_id advice1) \<and>
   console (openSession asking session0 (Response False history1)) = [] \<and>
   messages (openSession asking session0 (Response False history1)) = messages asking \<and>
   console (openSession asking session0 (Rejected :: message history_response fetch_result)) =
     [''Error opening session:''] \<and>
   console (loadUserProfile asking Rejected) = [''Error loading profile:''] \<and>
   console (loadRelationships asking Rejected) = [''Error loading relationships:''] \<and>
   console (loadAdviceList asking Rejected) = [''Error loading advice list:''] \<and>
   console (loadSessions asking Rejected) = [''Error loading sessions:''] \<and>
   console (createUser asking 17 ''Ann'' ''ann@example.org'' Null (Rejected :: unit fetch_result)
     Rejected) = [''Error creating user:''] \<and>
   messages (sendMessage asking Rejected) = [\<lparr> role = ''user'', content = ''hi'' \<rparr>] \<and>
   inputMessage (sendMessage asking Rejected) = [] \<and>
   console (sendMessage asking Rejected) = [''Error sending message:''] \<and>
   adviceSituation (submitAdvice asking Rejected Rejected) = ''help'' \<and>
   console (submitAdvice asking Rejected Rejected) = [''Advice request failed:''] \<and>
   console (openAdvice asking advice1 Rejected) = [''Failed to open advice:''] \<and>
   console (deleteAdvice asking (Val ''a1'') (Rejected :: unit fetch_result)) =
     [''Failed to delete advice:''] \<and>
   console (AddRelationship_handleSubmit asking (Rejected :: unit fetch_result) Rejected) =
     [''Error creating relationship:'']"
proof -
  note t = failures_are_ignored [where w = asking and s = session0
      and ?r2.0 = Rejected and ?r3.0 = Rejected and ?r4.0 = Rejected and ?r5.0 = Rejected
      and ?r6.0 = "Rejected :: unit fetch_result" and now = 17 and name = "''Ann''"
      and email = "''ann@example.org''" and a = Null and p = Rejected
      and ?r7.0 = Rejected and ?r8.0 = Rejected and l = Rejected
      and ?r9.0 = Rejected and item = advice1
      and ?r10.0 = "Rejected :: unit fetch_result" and aid = "Val ''a1''"
      and ?r11.0 = "Rejected :: unit fetch_result" and reload = Rejected]
  show ?thesis
    using t [where ?r1.0 = "Rejected :: message history_response fetch_result"]
      t [where ?r1.0 = "Response False history1"]
    by (simp add: asking_fields trim_hi trim_help advice1_def)
qed

end
